theory Spec2Isabelle
  imports Main "HOL-Library.AList"
begin

section \<open>Data model\<close>

text \<open>
  A JSON document as \<^verbatim>\<open>json.load\<close> returns it. A mapping is an association list in
  insertion order (a Python \<^verbatim>\<open>dict\<close> keeps insertion order and holds every key once).
  Scalars are text and \<^verbatim>\<open>null\<close>; numbers and booleans are left out of the model,
  so every statement below is about documents and tables whose scalars are text or null.
  \<open>JNull\<close> is Python's \<^verbatim>\<open>None\<close>.
\<close>

datatype json = JNull | JStr string | JList "json list" | JDict "(string \<times> json) list"

text \<open>
  Every exception the converter can raise is a value. \<open>MissingArgument\<close> and
  \<open>DepthMismatch\<close> are the two \<^verbatim>\<open>ValueError\<close>s the converter raises itself;
  \<open>IOFailure\<close> is a file that cannot be read. The others are raised by Python or by the
  libraries underneath: \<open>AttributeError\<close> and \<open>TypeError\<close> for an operation on a
  value of the wrong kind, \<open>IndexError\<close> for \<^verbatim>\<open>row[-2]\<close> on a row that is too short,
  \<open>EmptySequence\<close> for \<^verbatim>\<open>max()\<close> of nothing, \<open>CannotConvert\<close> for a cell value
  the workbook cannot hold, \<open>AmbiguousTruth\<close> for the truth value of an array that
  does not have exactly one element.
\<close>

datatype error =
    MissingArgument | DepthMismatch | IOFailure
  | AttributeError | TypeError | IndexError
  | EmptySequence | CannotConvert | AmbiguousTruth

section \<open>Depth validator (pre-write)\<close>

text \<open>
  \<^verbatim>\<open>get_depth\<close> and \<^verbatim>\<open>check_depth\<close> are the two local functions of
  \<^verbatim>\<open>_validate_json_depth\<close>; \<^verbatim>\<open>max_depth\<close>, which \<^verbatim>\<open>check_depth\<close> reads from the
  enclosing scope, is its first argument here.
\<close>

fun get_depth :: "json \<Rightarrow> nat \<Rightarrow> nat" where
  "get_depth (JDict kvs) current_depth =
     (if kvs = [] then current_depth
      else Max (set (map (\<lambda>v. get_depth v (current_depth + 1)) (map snd kvs))))"
| "get_depth (JList xs) current_depth =
     (if xs = [] then current_depth
      else Max (set (map (\<lambda>item. get_depth item current_depth) xs)))"
| "get_depth _ current_depth = current_depth"

fun check_depth :: "nat \<Rightarrow> json \<Rightarrow> nat \<Rightarrow> bool" where
  "check_depth max_depth (JDict kvs) depth =
     (if list_ex (\<lambda>v. get_depth v (depth + 1) \<noteq> max_depth) (map snd kvs) then False
      else list_all (\<lambda>v. check_depth max_depth v (depth + 1)) (map snd kvs))"
| "check_depth max_depth (JList xs) depth =
     (if list_ex (\<lambda>item. get_depth item depth \<noteq> max_depth) xs then False
      else list_all (\<lambda>item. check_depth max_depth item depth) xs)"
| "check_depth max_depth _ depth = True"

definition validate_json_depth :: "json \<Rightarrow> error + unit" where
  "validate_json_depth data =
     (let max_depth = get_depth data 0
      in if \<not> check_depth max_depth data 0 then Inl DepthMismatch else Inr ())"

section \<open>Flattener\<close>

text \<open>
  \<^verbatim>\<open>_flatten_dict\<close>: \<open>flatten_items\<close> is the loop over \<^verbatim>\<open>d.items()\<close>, one equation
  per iteration, with the three branches of the loop body in the order of the source. A
  row is the tuple of the keys on the path (as text cells) and the final value. An empty
  list fails the test \<^verbatim>\<open>isinstance(v, list) and v\<close> and so reaches the last branch,
  like a scalar. \<^verbatim>\<open>d.items()\<close> on a document that is not a mapping raises.
\<close>

function (sequential) flatten_items :: "(string \<times> json) list \<Rightarrow> json list \<Rightarrow> json list list" where
  "flatten_items [] parent_key = []"
| "flatten_items ((k, v) # kvs) parent_key =
     (case v of
        JDict d \<Rightarrow> flatten_items d (parent_key @ [JStr k])
      | JList (item # items) \<Rightarrow> map (\<lambda>item. parent_key @ [JStr k, item]) (item # items)
      | _ \<Rightarrow> [parent_key @ [JStr k, v]])
     @ flatten_items kvs parent_key"
  by pat_completeness auto
termination
  by (relation "measure (\<lambda>(kvs, parent_key). size (JDict kvs))") auto

definition flatten_dict :: "json \<Rightarrow> json list \<Rightarrow> error + json list list" where
  "flatten_dict d parent_key =
     (case d of JDict kvs \<Rightarrow> Inr (flatten_items kvs parent_key) | _ \<Rightarrow> Inl AttributeError)"

text \<open>
  \<^verbatim>\<open>_dict_to_dataframe\<close>. A data frame is the list of its rows, all of one length;
  \<^verbatim>\<open>pd.DataFrame(rows, columns=...)\<close> fills a shorter tuple with missing values on the
  right. \<^verbatim>\<open>max\<close> of no rows raises. \<open>shape1\<close> is \<^verbatim>\<open>df.shape[1]\<close>.
\<close>

definition dict_to_dataframe :: "json \<Rightarrow> error + json list list" where
  "dict_to_dataframe data_dict =
     (case flatten_dict data_dict [] of
        Inl e \<Rightarrow> Inl e
      | Inr rows \<Rightarrow>
          if rows = [] then Inl EmptySequence
          else let max_depth = Max (set (map length rows))
               in Inr (map (\<lambda>row. row @ replicate (max_depth - length row) JNull) rows))"

definition shape1 :: "'a list list \<Rightarrow> nat" where
  "shape1 df = (case df of [] \<Rightarrow> 0 | row # _ \<Rightarrow> length row)"

section \<open>Tabular writer\<close>

text \<open>
  The worksheet of the spreadsheet library: the value of every cell by row and column
  (both counted from 1; \<open>None\<close> is a cell without a value), the extent of the sheet and
  the merged ranges (column, first row, last row), in the order they were merged.
\<close>

type_synonym cell = "string option"

record worksheet =
  cell_value :: "nat \<Rightarrow> nat \<Rightarrow> cell"
  max_row :: nat
  max_column :: nat
  merged_cells :: "(nat \<times> nat \<times> nat) list"

text \<open>
  \<^verbatim>\<open>df.to_excel(writer, index=False, header=False, startrow=1)\<close>, from the behaviour of
  pandas and openpyxl: the cells are written column by column; a missing value is written
  as the empty text; a list or a mapping is no cell value, and assigning it raises after
  the cell has been created. Text is stored as it is. The spreadsheet library takes a
  text of more than one character that starts with \<open>=\<close> for a formula, and the text of
  an error code for an error; what the workbook holds then is outside the model, and
  \<open>stored_as_text\<close> is the text it stores as text.
\<close>

fun excel_value :: "json \<Rightarrow> error + cell" where
  "excel_value (JStr s) = Inr (Some s)"
| "excel_value JNull = Inr (Some [])"
| "excel_value _ = Inl CannotConvert"




definition empty_sheet :: worksheet where
  "empty_sheet = \<lparr> cell_value = (\<lambda>r c. None), max_row = 1, max_column = 1, merged_cells = [] \<rparr>"

definition set_cell :: "worksheet \<Rightarrow> nat \<Rightarrow> nat \<Rightarrow> cell \<Rightarrow> worksheet" where
  "set_cell ws row column v =
     ws \<lparr> cell_value := (\<lambda>r c. if r = row \<and> c = column then v else cell_value ws r c),
          max_row := max (max_row ws) row,
          max_column := max (max_column ws) column \<rparr>"

definition formatted_cells :: "json list list \<Rightarrow> (nat \<times> nat \<times> json) list" where
  "formatted_cells df =
     concat (map (\<lambda>colidx. map (\<lambda>i. (i, colidx, df ! i ! colidx)) [0 ..< length df])
                 [0 ..< shape1 df])"

fun write_cells :: "worksheet \<Rightarrow> nat \<Rightarrow> (nat \<times> nat \<times> json) list \<Rightarrow> error option \<times> worksheet" where
  "write_cells wks startrow [] = (None, wks)"
| "write_cells wks startrow ((row, col, val) # cells) =
     (case excel_value val of
        Inl e \<Rightarrow> (Some e, set_cell wks (startrow + row + 1) (col + 1) None)
      | Inr v \<Rightarrow> write_cells (set_cell wks (startrow + row + 1) (col + 1) v) startrow cells)"

definition to_excel :: "json list list \<Rightarrow> error option \<times> worksheet" where
  "to_excel df = write_cells empty_sheet 1 (formatted_cells df)"

text \<open>\<^verbatim>\<open>_set_headers\<close>; \<open>str_nat\<close> is the decimal numeral of the f-string.\<close>

fun str_nat :: "nat \<Rightarrow> string" where
  "str_nat n = (if n < 10 then [''0123456789'' ! n]
                else str_nat (n div 10) @ [''0123456789'' ! (n mod 10)])"

definition set_headers :: "worksheet \<Rightarrow> 'a list list \<Rightarrow> worksheet" where
  "set_headers ws df =
     fold (\<lambda>i ws. set_cell ws 1 (i + 1) (Some (''Level '' @ str_nat (i + 1))))
          [0 ..< shape1 df] ws"

text \<open>
  \<^verbatim>\<open>_merge_cells\<close>. \<open>merge_range\<close> is \<^verbatim>\<open>ws.merge_cells\<close> on a range within one
  column: the first cell keeps its value, the others lose theirs. \<open>merge_step\<close> is one
  iteration of the inner loop, on the state (worksheet, \<^verbatim>\<open>start_row\<close>,
  \<^verbatim>\<open>prev_value\<close>); \<open>merge_column\<close> is the inner loop with the check after it;
  \<open>merge_cells\<close> is the outer loop. The alignment of cells is not modelled.
\<close>

definition merge_range :: "worksheet \<Rightarrow> nat \<Rightarrow> nat \<Rightarrow> nat \<Rightarrow> worksheet" where
  "merge_range ws column first_row last_row =
     ws \<lparr> cell_value := (\<lambda>r c. if c = column \<and> first_row < r \<and> r \<le> last_row then None
                               else cell_value ws r c),
          merged_cells := merged_cells ws @ [(column, first_row, last_row)] \<rparr>"

definition merge_step :: "nat \<Rightarrow> nat \<Rightarrow> worksheet \<times> nat \<times> cell \<Rightarrow> worksheet \<times> nat \<times> cell" where
  "merge_step col row st =
     (case st of (ws, start_row, prev_value) \<Rightarrow>
        let cell_val = cell_value ws row (col + 1)
        in if cell_val \<noteq> prev_value
           then ((if start_row \<noteq> row - 1 \<and> prev_value \<noteq> None
                  then merge_range ws (col + 1) start_row (row - 1) else ws),
                 row, cell_val)
           else (ws, start_row, prev_value))"

definition merge_column :: "nat \<Rightarrow> worksheet \<Rightarrow> worksheet" where
  "merge_column col ws =
     (case fold (merge_step col) [2 ..< max_row ws + 1] (ws, 2, None) of
        (ws', start_row, prev_value) \<Rightarrow>
          if start_row \<noteq> max_row ws' \<and> prev_value \<noteq> None
          then merge_range ws' (col + 1) start_row (max_row ws') else ws')"

definition merge_cells :: "worksheet \<Rightarrow> worksheet" where
  "merge_cells ws = fold merge_column [0 ..< max_column ws] ws"

section \<open>Tabular reader\<close>

text \<open>
  \<^verbatim>\<open>pd.read_excel(file, header=None)\<close>, from the behaviour of pandas: a cell without a
  value reads as the empty text; trailing empty cells of a row and trailing empty rows
  are dropped, and the rows are filled up to the longest one; the empty text and the
  other default missing-value markers of pandas then read as missing (\<open>None\<close>). The
  header row keeps every column from being read as numbers, so other text comes back as
  it was stored.
\<close>

definition na_values :: "string list" where
  "na_values = [[], ''#N/A'', ''#N/A N/A'', ''#NA'', ''-1.#IND'', ''-1.#QNAN'', ''-NaN'',
                ''-nan'', ''1.#IND'', ''1.#QNAN'', ''<NA>'', ''N/A'', ''NA'', ''NULL'', ''NaN'',
                ''None'', ''n/a'', ''nan'', ''null'']"

definition convert_cell :: "cell \<Rightarrow> string" where
  "convert_cell c = (case c of None \<Rightarrow> [] | Some s \<Rightarrow> s)"

definition get_sheet_data :: "worksheet \<Rightarrow> string list list" where
  "get_sheet_data ws =
     (let rows = map (\<lambda>r. rev (dropWhile (\<lambda>v. v = [])
                              (rev (map (\<lambda>c. convert_cell (cell_value ws r c))
                                        [1 ..< max_column ws + 1]))))
                     [1 ..< max_row ws + 1];
          data = rev (dropWhile (\<lambda>row. row = []) (rev rows))
      in if data = [] then []
         else let max_width = Max (set (map length data))
              in map (\<lambda>row. row @ replicate (max_width - length row) []) data)"

definition read_excel :: "worksheet \<Rightarrow> cell list list" where
  "read_excel ws =
     map (map (\<lambda>v. if v \<in> set na_values then None else Some v)) (get_sheet_data ws)"


text \<open>
  \<^verbatim>\<open>df.ffill(axis=0)\<close>: in every column a missing cell takes the last value above it;
  \<open>fill_row\<close> fills one row from the filled row above.
\<close>

fun fill_row :: "cell list \<Rightarrow> cell list \<Rightarrow> cell list" where
  "fill_row (p # ps) (c # cs) = (case c of None \<Rightarrow> p | Some v \<Rightarrow> Some v) # fill_row ps cs"
| "fill_row [] cs = cs"
| "fill_row ps [] = []"

fun ffill_from :: "cell list \<Rightarrow> cell list list \<Rightarrow> cell list list" where
  "ffill_from prev [] = []"
| "ffill_from prev (row # rows) = (let row' = fill_row prev row in row' # ffill_from row' rows)"

definition ffill :: "cell list list \<Rightarrow> cell list list" where
  "ffill df = ffill_from [] df"

section \<open>Nester\<close>

text \<open>
  What \<^verbatim>\<open>_build_dict\<close> builds: mappings whose values are mappings or lists of text.
  The source mutates \<^verbatim>\<open>result\<close> through the alias \<^verbatim>\<open>current_level\<close>; here
  \<open>insert_path\<close> walks the key cells of one row and returns the updated level, and
  \<open>set_leaf\<close> is the code after the inner loop. \<^verbatim>\<open>pd.notna\<close> of a cell is
  \<open>\<noteq> None\<close>. \<open>AList.update\<close> replaces the value of a key in place, or appends a new key,
  as assignment to a \<^verbatim>\<open>dict\<close> entry does. When \<^verbatim>\<open>current_level\<close> has become a list,
  a text cell is no index into it, which raises \<^verbatim>\<open>TypeError\<close>; a mapping found where
  the list of values is expected has no \<^verbatim>\<open>append\<close>.
\<close>

datatype nested = Leaf "string list" | Node "(string \<times> nested) list"

fun set_leaf :: "nested \<Rightarrow> cell \<Rightarrow> cell \<Rightarrow> error + nested" where
  "set_leaf current_level None last_value = Inr current_level"
| "set_leaf (Node kvs) (Some last_key) last_value =
     (case map_of kvs last_key of
        None \<Rightarrow>
          Inr (Node (AList.update last_key
                       (Leaf (case last_value of None \<Rightarrow> [] | Some v \<Rightarrow> [v])) kvs))
      | Some (Leaf xs) \<Rightarrow>
          (case last_value of
             None \<Rightarrow> Inr (Node kvs)
           | Some v \<Rightarrow>
               if v \<notin> set xs then Inr (Node (AList.update last_key (Leaf (xs @ [v])) kvs))
               else Inr (Node kvs))
      | Some (Node d) \<Rightarrow>
          (case last_value of
             None \<Rightarrow> Inr (Node kvs)
           | Some v \<Rightarrow> if v \<notin> set (map fst d) then Inl AttributeError else Inr (Node kvs)))"
| "set_leaf (Leaf xs) (Some last_key) last_value =
     (if last_key \<notin> set xs then Inl TypeError
      else (case last_value of None \<Rightarrow> Inr (Leaf xs) | Some v \<Rightarrow> Inl TypeError))"

fun insert_path :: "nested \<Rightarrow> cell list \<Rightarrow> cell \<Rightarrow> cell \<Rightarrow> error + nested" where
  "insert_path current_level [] last_key last_value = set_leaf current_level last_key last_value"
| "insert_path current_level (None # cells) last_key last_value =
     insert_path current_level cells last_key last_value"
| "insert_path (Node kvs) (Some v # cells) last_key last_value =
     (case insert_path (case map_of kvs v of None \<Rightarrow> Node [] | Some child \<Rightarrow> child)
             cells last_key last_value of
        Inl e \<Rightarrow> Inl e
      | Inr child' \<Rightarrow> Inr (Node (AList.update v child' kvs)))"
| "insert_path (Leaf xs) (Some v # cells) last_key last_value = Inl TypeError"

definition build_row :: "nested \<Rightarrow> cell list \<Rightarrow> error + nested" where
  "build_row result row =
     (if length row < 2 then Inl IndexError
      else insert_path result (take (length row - 2) row)
             (row ! (length row - 2)) (row ! (length row - 1)))"

fun build_rows :: "nested \<Rightarrow> cell list list \<Rightarrow> error + nested" where
  "build_rows result [] = Inr result"
| "build_rows result (row # rows) =
     (case build_row result row of
        Inl e \<Rightarrow> Inl e
      | Inr result' \<Rightarrow> build_rows result' rows)"

definition build_dict :: "cell list list \<Rightarrow> error + nested" where
  "build_dict df = build_rows (Node []) df"

text \<open>The rebuilt mapping as a JSON document, as \<^verbatim>\<open>json.dump\<close> writes it.\<close>

fun json_of :: "nested \<Rightarrow> json" where
  "json_of (Leaf xs) = JList (map JStr xs)"
| "json_of (Node kvs) = JDict (map (\<lambda>kv. (fst kv, json_of (snd kv))) kvs)"

section \<open>Depth validator (post-read)\<close>

text \<open>
  \<^verbatim>\<open>_validate_excel_depth\<close> receives the rebuilt mapping and makes a frame of it with
  \<^verbatim>\<open>pd.DataFrame.from_dict(data, orient='index')\<close>. From the behaviour of pandas and
  NumPy: when the first value is a mapping, every value must be a mapping, the frame has
  one row for each top-level key with a non-empty mapping and one column for each key of
  the second level; when the first value is a list, every value gives a row of its
  elements (of its keys, for a mapping). The depth of a row is the number of its cells
  for which \<^verbatim>\<open>pd.notna\<close> is true; for a cell that holds a list, \<^verbatim>\<open>pd.notna\<close> is an
  array, whose truth value exists only if it has one element. \<open>row_width\<close> counts the
  cells a value contributes. A frame without rows has no least and no greatest depth
  (both are NaN, and NaN differs from NaN), so it is rejected.
\<close>

fun ambiguous :: "nested \<Rightarrow> bool" where
  "ambiguous (Leaf xs) = (length xs \<noteq> 1)"
| "ambiguous (Node d) = False"

fun row_width :: "nested \<Rightarrow> nat" where
  "row_width (Leaf xs) = length xs"
| "row_width (Node d) = length d"

fun is_leaf :: "nested \<Rightarrow> bool" where
  "is_leaf (Leaf xs) = True"
| "is_leaf (Node d) = False"

definition check_row_depths :: "nat list \<Rightarrow> error + unit" where
  "check_row_depths row_depths =
     (if row_depths = [] then Inl DepthMismatch
      else if Max (set row_depths) \<noteq> Min (set row_depths) then Inl DepthMismatch
      else Inr ())"

fun validate_excel_depth :: "nested \<Rightarrow> error + unit" where
  "validate_excel_depth (Node []) = check_row_depths []"
| "validate_excel_depth (Node ((k, Node d) # rest)) =
     (if list_ex is_leaf (map snd rest) then Inl AttributeError
      else let rows = filter (\<lambda>v. row_width v \<noteq> 0) (Node d # map snd rest)
           in if list_ex (\<lambda>v. case v of Node cells \<Rightarrow> list_ex ambiguous (map snd cells)
                                       | Leaf xs \<Rightarrow> False) rows
              then Inl AmbiguousTruth
              else check_row_depths (map row_width rows))"
| "validate_excel_depth (Node ((k, Leaf xs) # rest)) =
     check_row_depths (map row_width (Leaf xs # map snd rest))"
| "validate_excel_depth (Leaf xs) = (if xs = [] then check_row_depths [] else Inl AttributeError)"

section \<open>The converter and its files\<close>

text \<open>
  The file system maps a path to what the file holds; \<open>io_log\<close> records every file the
  converter opens, in order, so that "before any file I/O" can be stated. Opening an
  absent file for reading, or a file of the other kind, is \<open>IOFailure\<close>; writing
  succeeds in the model. The four fields of the converter are those of
  \<^verbatim>\<open>__init__\<close>; a path that was not given is \<open>None\<close>, and \<^verbatim>\<open>data_dict\<close> that was not
  given is \<open>JNull\<close>. \<open>truthy\<close> is Python's truth value of a path: neither
  \<^verbatim>\<open>None\<close> nor empty.
\<close>

datatype file_data = JsonFile json | ExcelFile worksheet

datatype io_event = ReadFile string | WriteFile string

record world =
  files :: "string \<Rightarrow> file_data option"
  io_log :: "io_event list"

record converter =
  json_file :: "string option"
  data_dict :: json
  excel_file :: "string option"
  output_json_file :: "string option"

definition truthy :: "string option \<Rightarrow> bool" where
  "truthy p = (case p of None \<Rightarrow> False | Some s \<Rightarrow> s \<noteq> [])"

definition path_of :: "string option \<Rightarrow> string" where
  "path_of p = (case p of None \<Rightarrow> [] | Some s \<Rightarrow> s)"

text \<open>
  \<^verbatim>\<open>Path(json_file).stem\<close> for POSIX paths: the last component of the path that is
  neither empty nor a single dot, without its last suffix; a dot at the start or at the
  end of the name begins no suffix.
\<close>

fun split_path :: "string \<Rightarrow> string list" where
  "split_path [] = [[]]"
| "split_path (c # cs) =
     (if c = CHR ''/'' then [] # split_path cs
      else (case split_path cs of [] \<Rightarrow> [[c]] | part # parts \<Rightarrow> (c # part) # parts))"

definition path_name :: "string \<Rightarrow> string" where
  "path_name p =
     (case rev (filter (\<lambda>part. part \<noteq> [] \<and> part \<noteq> ''.'') (split_path p)) of
        [] \<Rightarrow> []
      | name # _ \<Rightarrow> name)"

definition path_stem :: "string \<Rightarrow> string" where
  "path_stem p =
     (let name = path_name p
      in if CHR ''.'' \<in> set name
         then let i = length name - length (takeWhile (\<lambda>c. c \<noteq> CHR ''.'') (rev name)) - 1
              in if 0 < i \<and> i < length name - 1 then take i name else name
         else name)"

definition generate_excel_filename :: "string \<Rightarrow> string" where
  "generate_excel_filename jf = path_stem jf @ ''.xlsx''"

definition load_json :: "string \<Rightarrow> world \<Rightarrow> (error + json) \<times> world" where
  "load_json jf w =
     (let w' = w \<lparr> io_log := io_log w @ [ReadFile jf] \<rparr>
      in case files w jf of
           Some (JsonFile d) \<Rightarrow> (Inr d, w')
         | _ \<Rightarrow> (Inl IOFailure, w'))"

text \<open>
  \<^verbatim>\<open>_save_to_excel\<close>. The writer is a context manager that saves the workbook when the
  block is left, also when the block raises: a failed \<^verbatim>\<open>to_excel\<close> leaves the file
  with the cells written so far.
\<close>

definition save_to_excel :: "json list list \<Rightarrow> string \<Rightarrow> world \<Rightarrow> (error + unit) \<times> world" where
  "save_to_excel df ef w =
     (case to_excel df of
        (Some e, worksheet) \<Rightarrow>
          (Inl e, w \<lparr> files := (files w)(ef \<mapsto> ExcelFile worksheet),
                      io_log := io_log w @ [WriteFile ef] \<rparr>)
      | (None, worksheet) \<Rightarrow>
          (Inr (), w \<lparr> files := (files w)(ef \<mapsto> ExcelFile (merge_cells (set_headers worksheet df))),
                       io_log := io_log w @ [WriteFile ef] \<rparr>))"

text \<open>
  \<^verbatim>\<open>json_to_excel\<close> returns its outcome, the converter with the fields it has assigned,
  and the file system. \<open>convert\<close> is its last two statements.
\<close>

definition convert :: "converter \<Rightarrow> world \<Rightarrow> (error + unit) \<times> converter \<times> world" where
  "convert c w =
     (case dict_to_dataframe (data_dict c) of
        Inl e \<Rightarrow> (Inl e, c, w)
      | Inr data_frames \<Rightarrow>
          (case save_to_excel data_frames (path_of (excel_file c)) w of
             (r, w') \<Rightarrow> (r, c, w')))"

definition json_to_excel :: "converter \<Rightarrow> world \<Rightarrow> (error + unit) \<times> converter \<times> world" where
  "json_to_excel c w =
     (if truthy (json_file c)
      then (case load_json (path_of (json_file c)) w of
              (Inl e, w1) \<Rightarrow> (Inl e, c, w1)
            | (Inr d, w1) \<Rightarrow>
                let c1 = c \<lparr> data_dict := d \<rparr>
                in (case validate_json_depth d of
                      Inl e \<Rightarrow> (Inl e, c1, w1)
                    | Inr u \<Rightarrow>
                        convert (c1 \<lparr> excel_file :=
                                       Some (generate_excel_filename (path_of (json_file c))) \<rparr>) w1))
      else if data_dict c = JNull \<or> excel_file c = None
      then (Inl MissingArgument, c, w)
      else convert c w)"

definition excel_to_dict :: "converter \<Rightarrow> world \<Rightarrow> (error + nested) \<times> world" where
  "excel_to_dict c w =
     (let w' = w \<lparr> io_log := io_log w @ [ReadFile (path_of (excel_file c))] \<rparr>
      in case files w (path_of (excel_file c)) of
           Some (ExcelFile ws) \<Rightarrow> (build_dict (ffill (drop 1 (read_excel ws))), w')
         | _ \<Rightarrow> (Inl IOFailure, w'))"

definition save_to_json :: "converter \<Rightarrow> nested \<Rightarrow> world \<Rightarrow> world" where
  "save_to_json c nested_dict w =
     w \<lparr> files := (files w)(path_of (output_json_file c) \<mapsto> JsonFile (json_of nested_dict)),
         io_log := io_log w @ [WriteFile (path_of (output_json_file c))] \<rparr>"

fun excel_to_json :: "converter \<Rightarrow> world \<Rightarrow> (error + unit) \<times> world" where
  "excel_to_json c w =
     (if \<not> truthy (excel_file c) \<or> \<not> truthy (output_json_file c)
      then (Inl MissingArgument, w)
      else (case excel_to_dict c w of
              (Inl e, w1) \<Rightarrow> (Inl e, w1)
            | (Inr nested_dict, w1) \<Rightarrow>
                (case validate_excel_depth nested_dict of
                   Inl e \<Rightarrow> (Inl e, w1)
                 | Inr u \<Rightarrow> (Inr (), save_to_json c nested_dict w1))))"

section \<open>Reference notions for the statements\<close>

text \<open>
  The depths at which the branches of a document end, in the words of the specification:
  a mapping adds one level, a list adds none. A branch ends at a scalar, at an empty
  list or at an empty mapping.
\<close>

fun leaf_depths :: "json \<Rightarrow> nat \<Rightarrow> nat list" where
  "leaf_depths (JDict kvs) depth =
     (if kvs = [] then [depth]
      else concat (map (\<lambda>v. leaf_depths v (depth + 1)) (map snd kvs)))"
| "leaf_depths (JList xs) depth =
     (if xs = [] then [depth]
      else concat (map (\<lambda>item. leaf_depths item depth) xs))"
| "leaf_depths _ depth = [depth]"


text \<open>The depth of a table row in the words of the specification: its cells that are not absent.\<close>

definition row_depth :: "cell list \<Rightarrow> nat" where
  "row_depth row = length (filter (\<lambda>c. c \<noteq> None) row)"

text \<open>
  The rows a stored workbook reads back as, after the header is stripped and the columns
  are filled down.
\<close>

definition decoded_rows :: "world \<Rightarrow> string \<Rightarrow> cell list list option" where
  "decoded_rows w p =
     (case files w p of
        Some (ExcelFile ws) \<Rightarrow> Some (ffill (drop 1 (read_excel ws)))
      | _ \<Rightarrow> None)"


section \<open>Example documents, tables and calls\<close>

text \<open>A document with one branch of depth 2 and another of depth 3.\<close>

definition mixed_tree :: json where
  "mixed_tree = JDict [(''A'', JDict [(''x'', JStr ''v1'')]),
                       (''B'', JDict [(''y'', JDict [(''z'', JStr ''v2'')])])]"

definition no_files :: world where
  "no_files = \<lparr> files = (\<lambda>p. None), io_log = [] \<rparr>"

definition dict_call :: "json \<Rightarrow> string \<Rightarrow> converter" where
  "dict_call d ef = \<lparr> json_file = None, data_dict = d, excel_file = Some ef,
                      output_json_file = None \<rparr>"

text \<open>A document whose only leaf is an empty list, and one whose two branches end in lists at depths 2 and 3.\<close>

definition empty_leaf_tree :: json where
  "empty_leaf_tree = JDict [(''A'', JDict [(''B'', JList [])])]"

definition uneven_tree :: json where
  "uneven_tree = JDict [(''A'', JDict [(''x'', JList [JStr ''v1''])]),
                        (''B'', JDict [(''y'', JDict [(''z'', JList [JStr ''v2''])])])]"

text \<open>A converter built from a JSON file, and a file system that holds one JSON file.\<close>

definition json_call :: "string \<Rightarrow> string option \<Rightarrow> converter" where
  "json_call jf ef = \<lparr> json_file = Some jf, data_dict = JNull, excel_file = ef,
                       output_json_file = None \<rparr>"

definition one_json_file :: "string \<Rightarrow> json \<Rightarrow> world" where
  "one_json_file p d = \<lparr> files = (\<lambda>q. if q = p then Some (JsonFile d) else None), io_log = [] \<rparr>"

text \<open>A document of uniform depth 2 whose branches have two children and one child.\<close>

definition two_children_tree :: json where
  "two_children_tree = JDict [(''A'', JDict [(''x'', JList [JStr ''v1'']), (''y'', JList [JStr ''v2''])]),
                              (''B'', JDict [(''x'', JList [JStr ''v3''])])]"

text \<open>A converter for the way back, from a workbook to a JSON file.\<close>

definition back_call :: "string \<Rightarrow> string \<Rightarrow> converter" where
  "back_call ef oj = \<lparr> json_file = None, data_dict = JNull, excel_file = Some ef,
                       output_json_file = Some oj \<rparr>"









section \<open>Well-formed documents and the round trip\<close>








section \<open>Auxiliary notions of the proofs\<close>






section \<open>The pre-write validator accepts exactly the uniform documents\<close>

lemma leaf_depths_nonempty: "leaf_depths t c \<noteq> []"
proof (induction t c rule: leaf_depths.induct)
  case (1 kvs depth)
  show ?case
  proof (cases kvs)
    case Nil then show ?thesis by simp
  next
    case (Cons kv rest)
    with 1 have "leaf_depths (snd kv) (depth + 1) \<noteq> []" by simp
    with Cons show ?thesis by simp
  qed
next
  case (2 xs depth)
  show ?case
  proof (cases xs)
    case Nil then show ?thesis by simp
  next
    case (Cons x rest)
    with 2 have "leaf_depths x depth \<noteq> []" by simp
    with Cons show ?thesis by simp
  qed
qed simp_all

lemma get_depth_in_leaves: "get_depth t c \<in> set (leaf_depths t c)"
proof (induction t c rule: get_depth.induct)
  case (1 kvs c)
  show ?case
  proof (cases "kvs = []")
    case True then show ?thesis by simp
  next
    case False
    let ?S = "set (map (\<lambda>v. get_depth v (c + 1)) (map snd kvs))"
    have "Max ?S \<in> ?S" using False by (intro Max_in) auto
    then obtain v where v: "v \<in> set (map snd kvs)" "Max ?S = get_depth v (c + 1)" by auto
    from 1 [OF False v(1)] have "get_depth v (c + 1) \<in> set (leaf_depths v (c + 1))" .
    with v False show ?thesis by auto
  qed
next
  case (2 xs c)
  show ?case
  proof (cases "xs = []")
    case True then show ?thesis by simp
  next
    case False
    let ?S = "set (map (\<lambda>v. get_depth v c) xs)"
    have "Max ?S \<in> ?S" using False by (intro Max_in) auto
    then obtain v where v: "v \<in> set xs" "Max ?S = get_depth v c" by auto
    from 2 [OF False v(1)] have "get_depth v c \<in> set (leaf_depths v c)" .
    with v False show ?thesis by auto
  qed
qed simp_all

lemma leaves_le_get_depth: "d \<in> set (leaf_depths t c) \<Longrightarrow> d \<le> get_depth t c"
proof (induction t c arbitrary: d rule: get_depth.induct)
  case (1 kvs c)
  show ?case
  proof (cases "kvs = []")
    case True with 1(2) show ?thesis by simp
  next
    case False
    with 1(2) obtain v where v: "v \<in> set (map snd kvs)" "d \<in> set (leaf_depths v (c + 1))"
      by auto
    from 1(1) [OF False v] have "d \<le> get_depth v (c + 1)" .
    also have "\<dots> \<le> Max (set (map (\<lambda>v. get_depth v (c + 1)) (map snd kvs)))"
      using v(1) by (intro Max_ge) auto
    finally show ?thesis using False by simp
  qed
next
  case (2 xs c)
  show ?case
  proof (cases "xs = []")
    case True with 2(2) show ?thesis by simp
  next
    case False
    with 2(2) obtain v where v: "v \<in> set xs" "d \<in> set (leaf_depths v c)"
      by auto
    from 2(1) [OF False v] have "d \<le> get_depth v c" .
    also have "\<dots> \<le> Max (set (map (\<lambda>v. get_depth v c) xs))"
      using v(1) by (intro Max_ge) auto
    finally show ?thesis using False by simp
  qed
qed simp_all

lemma get_depth_Max: "get_depth t c = Max (set (leaf_depths t c))"
  by (rule sym, rule Max_eqI) (auto simp: leaves_le_get_depth get_depth_in_leaves)

lemma all_leaves_get_depth:
  "(\<forall>d \<in> set (leaf_depths t c). d = M) \<Longrightarrow> get_depth t c = M"
  using get_depth_in_leaves [of t c] by blast

lemma check_depth_leaves:
  "get_depth t c = M \<Longrightarrow> check_depth M t c = (\<forall>d \<in> set (leaf_depths t c). d = M)"
proof (induction M t c rule: check_depth.induct)
  case (1 M kvs c)
  show ?case
  proof (cases "kvs = []")
    case True with 1(2) show ?thesis by simp
  next
    case False
    show ?thesis
    proof (cases "list_ex (\<lambda>v. get_depth v (c + 1) \<noteq> M) (map snd kvs)")
      case True
      then obtain v where v: "v \<in> set (map snd kvs)" "get_depth v (c + 1) \<noteq> M"
        unfolding list_ex_iff by blast
      have "\<not> (\<forall>d \<in> set (leaf_depths v (c + 1)). d = M)"
        using v(2) all_leaves_get_depth by blast
      then have "\<not> (\<forall>d \<in> set (leaf_depths (JDict kvs) c). d = M)"
        using v(1) False by auto
      with True show ?thesis by simp
    next
      case nex: False
      then have eq: "\<And>v. v \<in> set (map snd kvs) \<Longrightarrow> get_depth v (c + 1) = M"
        unfolding list_ex_iff by blast
      have "\<And>v. v \<in> set (map snd kvs) \<Longrightarrow>
              check_depth M v (c + 1) = (\<forall>d \<in> set (leaf_depths v (c + 1)). d = M)"
        using 1(1) [OF nex _ eq] by blast
      then have "list_all (\<lambda>v. check_depth M v (c + 1)) (map snd kvs)
                 = (\<forall>v \<in> set (map snd kvs). \<forall>d \<in> set (leaf_depths v (c + 1)). d = M)"
        unfolding list_all_iff by blast
      with nex False show ?thesis by auto
    qed
  qed
next
  case (2 M xs c)
  show ?case
  proof (cases "xs = []")
    case True with 2(2) show ?thesis by simp
  next
    case False
    show ?thesis
    proof (cases "list_ex (\<lambda>v. get_depth v c \<noteq> M) xs")
      case True
      then obtain v where v: "v \<in> set xs" "get_depth v c \<noteq> M"
        unfolding list_ex_iff by blast
      have "\<not> (\<forall>d \<in> set (leaf_depths v c). d = M)"
        using v(2) all_leaves_get_depth by blast
      then have "\<not> (\<forall>d \<in> set (leaf_depths (JList xs) c). d = M)"
        using v(1) False by auto
      with True show ?thesis by simp
    next
      case nex: False
      then have eq: "\<And>v. v \<in> set xs \<Longrightarrow> get_depth v c = M"
        unfolding list_ex_iff by blast
      have "\<And>v. v \<in> set xs \<Longrightarrow>
              check_depth M v c = (\<forall>d \<in> set (leaf_depths v c). d = M)"
        using 2(1) [OF nex _ eq] by blast
      then have "list_all (\<lambda>v. check_depth M v c) xs
                 = (\<forall>v \<in> set xs. \<forall>d \<in> set (leaf_depths v c). d = M)"
        unfolding list_all_iff by blast
      with nex False show ?thesis by auto
    qed
  qed
qed simp_all

text \<open>
  C6. \<^verbatim>\<open>max_depth\<close> is the greatest depth at which a branch ends (a mapping adds 1, a
  list adds nothing); the validator accepts exactly when every branch ends at
  \<^verbatim>\<open>max_depth\<close>; a document with a branch of depth 2 and a branch of depth 3 is
  rejected with \<open>DepthMismatch\<close>.
\<close>

theorem pre_write_validator_uniform_depth:
  "get_depth t 0 = Max (set (leaf_depths t 0)) \<and>
   (validate_json_depth t = Inr ()) = (\<forall>d \<in> set (leaf_depths t 0). d = get_depth t 0) \<and>
   (2 \<in> set (leaf_depths t 0) \<and> 3 \<in> set (leaf_depths t 0)
      \<longrightarrow> validate_json_depth t = Inl DepthMismatch)"
proof -
  have a: "get_depth t 0 = Max (set (leaf_depths t 0))" by (rule get_depth_Max)
  have b: "(validate_json_depth t = Inr ()) = (\<forall>d \<in> set (leaf_depths t 0). d = get_depth t 0)"
    using check_depth_leaves [of t 0 "get_depth t 0"] by (simp add: validate_json_depth_def)
  have c: "validate_json_depth t = Inl DepthMismatch"
    if "2 \<in> set (leaf_depths t 0)" "3 \<in> set (leaf_depths t 0)"
  proof -
    have "\<not> (\<forall>d \<in> set (leaf_depths t 0). d = get_depth t 0)"
      using that by (metis numeral_eq_iff semiring_norm(88))
    with b have "validate_json_depth t \<noteq> Inr ()" by simp
    then show ?thesis by (simp add: validate_json_depth_def split: if_splits)
  qed
  from a b c show ?thesis by blast
qed

theorem pre_write_validator_uniform_depth_witness:
  "leaf_depths mixed_tree 0 = [2, 3] \<and> get_depth mixed_tree 0 = 3 \<and>
   validate_json_depth mixed_tree = Inl DepthMismatch"
  using pre_write_validator_uniform_depth [of mixed_tree]
  by (simp add: mixed_tree_def)

section \<open>The errors of flattening and writing\<close>

text \<open>
  The last two statements of \<^verbatim>\<open>json_to_excel\<close> fail only for a document that is no
  mapping, for a document without rows, and for a value that is no cell value.
\<close>

lemma excel_value_error: "excel_value v = Inl e \<Longrightarrow> e = CannotConvert"
  by (cases v) auto

lemma write_cells_error: "fst (write_cells ws n cs) = Some e \<Longrightarrow> e = CannotConvert"
proof (induction cs arbitrary: ws)
  case Nil
  then show ?case by simp
next
  case (Cons x cs)
  obtain row col val where x: "x = (row, col, val)" by (cases x)
  show ?case
  proof (cases "excel_value val")
    case (Inl e')
    with Cons.prems x show ?thesis by (simp add: excel_value_error)
  next
    case (Inr v)
    with Cons x show ?thesis by simp
  qed
qed

lemma convert_errors:
  "fst (convert c0 w0) = Inl e \<Longrightarrow> e = AttributeError \<or> e = EmptySequence \<or> e = CannotConvert"
proof (cases "dict_to_dataframe (data_dict c0)")
  case (Inl e')
  then have "e' = AttributeError \<or> e' = EmptySequence"
    by (auto simp: dict_to_dataframe_def flatten_dict_def Let_def
          split: sum.splits json.splits if_splits)
  moreover assume "fst (convert c0 w0) = Inl e"
  ultimately show ?thesis using Inl by (auto simp: convert_def)
next
  case (Inr df)
  assume a: "fst (convert c0 w0) = Inl e"
  obtain r ws where t: "to_excel df = (r, ws)" by (cases "to_excel df")
  show ?thesis
  proof (cases r)
    case None
    with a Inr t show ?thesis by (simp add: convert_def save_to_excel_def)
  next
    case (Some e')
    with write_cells_error [of empty_sheet 1 "formatted_cells df" e'] t
    have "e' = CannotConvert" by (simp add: to_excel_def)
    with a Inr t Some show ?thesis by (auto simp: convert_def save_to_excel_def)
  qed
qed

section \<open>Flattening an empty list\<close>

text \<open>
  C3. The claim is that a key whose value is an empty list emits no row, so that the
  document \<^verbatim>\<open>{"A": {"B": []}}\<close> flattens to no rows. The flattener emits one row
  for every such key, whose last cell is the empty list itself; for the document of the
  claim that is the row ("A", "B", []).
\<close>

theorem empty_list_emits_row:
  "flatten_items ((k, JList []) # kvs) p = (p @ [JStr k, JList []]) # flatten_items kvs p \<and>
   flatten_dict empty_leaf_tree [] = Inr [[JStr ''A'', JStr ''B'', JList []]]"
  by (simp add: empty_leaf_tree_def flatten_dict_def)

section \<open>Validation on the two entries of the forward conversion\<close>

text \<open>
  C2. The claim is that a document of non-uniform depth is refused with
  \<open>DepthMismatch\<close> whether it is loaded from \<^verbatim>\<open>json_file\<close> or supplied as
  \<^verbatim>\<open>data_dict\<close>. A document with a branch of depth 2 and a branch of depth 3 is refused
  when it is loaded from a file (nothing is written), and converted when it is supplied
  as \<^verbatim>\<open>data_dict\<close>: the call succeeds and writes the workbook, the shorter row filled
  with a missing cell. No call with \<^verbatim>\<open>data_dict\<close> fails with \<open>DepthMismatch\<close>.
\<close>

theorem data_dict_not_validated:
  "validate_json_depth uneven_tree = Inl DepthMismatch \<and>
   fst (json_to_excel (json_call ''in.json'' (Some ''out.xlsx'')) (one_json_file ''in.json'' uneven_tree))
     = Inl DepthMismatch \<and>
   io_log (snd (snd (json_to_excel (json_call ''in.json'' (Some ''out.xlsx''))
                       (one_json_file ''in.json'' uneven_tree))))
     = [ReadFile ''in.json''] \<and>
   fst (json_to_excel (dict_call uneven_tree ''out.xlsx'') no_files) = Inr () \<and>
   io_log (snd (snd (json_to_excel (dict_call uneven_tree ''out.xlsx'') no_files)))
     = [WriteFile ''out.xlsx''] \<and>
   decoded_rows (snd (snd (json_to_excel (dict_call uneven_tree ''out.xlsx'') no_files))) ''out.xlsx''
     = Some [[Some ''A'', Some ''x'', Some ''v1'', None],
             [Some ''B'', Some ''y'', Some ''z'', Some ''v2'']] \<and>
   fst (json_to_excel (dict_call d p) w) \<noteq> Inl DepthMismatch"
proof -
  have a: "validate_json_depth uneven_tree = Inl DepthMismatch" by code_simp
  have b: "fst (json_to_excel (json_call ''in.json'' (Some ''out.xlsx''))
                  (one_json_file ''in.json'' uneven_tree)) = Inl DepthMismatch"
    by code_simp
  have c: "io_log (snd (snd (json_to_excel (json_call ''in.json'' (Some ''out.xlsx''))
                       (one_json_file ''in.json'' uneven_tree)))) = [ReadFile ''in.json'']"
    by code_simp
  have d: "fst (json_to_excel (dict_call uneven_tree ''out.xlsx'') no_files) = Inr ()"
    by code_simp
  have e: "io_log (snd (snd (json_to_excel (dict_call uneven_tree ''out.xlsx'') no_files)))
             = [WriteFile ''out.xlsx'']"
    by code_simp
  have f: "decoded_rows (snd (snd (json_to_excel (dict_call uneven_tree ''out.xlsx'') no_files)))
             ''out.xlsx''
           = Some [[Some ''A'', Some ''x'', Some ''v1'', None],
                   [Some ''B'', Some ''y'', Some ''z'', Some ''v2'']]"
    by code_simp
  have g: "fst (json_to_excel (dict_call d p) w) \<noteq> Inl DepthMismatch"
    using convert_errors [of "dict_call d p" w DepthMismatch]
    by (auto simp: json_to_excel_def dict_call_def truthy_def)
  from a b c d e f g show ?thesis by blast
qed

section \<open>The post-read validator\<close>

text \<open>
  C5. The claim is that the post-read validator accepts exactly when every row has the
  same number of cells that are not absent. For a workbook written by the converter
  itself, whose three rows all have depth 3, the rebuilt mapping is rejected with
  \<open>DepthMismatch\<close>: the validator counts the second-level keys under each top-level
  key (2 under "A", 1 under "B"), not the cells of the rows. And a workbook whose two
  rows have depths 3 and 4 is accepted and converted: each top-level key has one
  second-level key.
\<close>

theorem post_read_validator_rejects_uniform_rows:
  "decoded_rows (snd (snd (json_to_excel (dict_call two_children_tree ''t.xlsx'') no_files))) ''t.xlsx''
     = Some [[Some ''A'', Some ''x'', Some ''v1''],
             [Some ''A'', Some ''y'', Some ''v2''],
             [Some ''B'', Some ''x'', Some ''v3'']] \<and>
   map row_depth [[Some ''A'', Some ''x'', Some ''v1''],
                  [Some ''A'', Some ''y'', Some ''v2''],
                  [Some ''B'', Some ''x'', Some ''v3'']] = [3, 3, 3] \<and>
   fst (excel_to_dict (back_call ''t.xlsx'' ''t.json'')
          (snd (snd (json_to_excel (dict_call two_children_tree ''t.xlsx'') no_files))))
     = Inr (Node [(''A'', Node [(''x'', Leaf [''v1'']), (''y'', Leaf [''v2''])]),
                  (''B'', Node [(''x'', Leaf [''v3''])])]) \<and>
   fst (excel_to_json (back_call ''t.xlsx'' ''t.json'')
          (snd (snd (json_to_excel (dict_call two_children_tree ''t.xlsx'') no_files))))
     = Inl DepthMismatch \<and>
   decoded_rows (snd (snd (json_to_excel (dict_call uneven_tree ''u.xlsx'') no_files))) ''u.xlsx''
     = Some [[Some ''A'', Some ''x'', Some ''v1'', None],
             [Some ''B'', Some ''y'', Some ''z'', Some ''v2'']] \<and>
   map row_depth [[Some ''A'', Some ''x'', Some ''v1'', None],
                  [Some ''B'', Some ''y'', Some ''z'', Some ''v2'']] = [3, 4] \<and>
   fst (excel_to_json (back_call ''u.xlsx'' ''u.json'')
          (snd (snd (json_to_excel (dict_call uneven_tree ''u.xlsx'') no_files))))
     = Inr ()"
  by code_simp

section \<open>The empty mapping\<close>

text \<open>
  C10. For the empty mapping the flattener yields no rows and the maximum over the row
  lengths is taken over an empty sequence: the call fails with that error, which is none
  of \<open>MissingArgument\<close>, \<open>DepthMismatch\<close>, \<open>IOFailure\<close>, and no file is written
  (loaded from a file, only the read is logged; supplied as \<^verbatim>\<open>data_dict\<close>, the file
  system is untouched).
\<close>

theorem empty_mapping_fails_in_max:
  "flatten_dict (JDict []) [] = Inr [] \<and>
   (truthy (json_file c) \<and> files w (path_of (json_file c)) = Some (JsonFile (JDict [])) \<longrightarrow>
      json_to_excel c w =
        (Inl EmptySequence,
         c \<lparr> data_dict := JDict [],
             excel_file := Some (generate_excel_filename (path_of (json_file c))) \<rparr>,
         w \<lparr> io_log := io_log w @ [ReadFile (path_of (json_file c))] \<rparr>)) \<and>
   (\<not> truthy (json_file c) \<and> data_dict c = JDict [] \<and> excel_file c \<noteq> None \<longrightarrow>
      json_to_excel c w = (Inl EmptySequence, c, w))"
  by (simp add: json_to_excel_def load_json_def validate_json_depth_def convert_def
        dict_to_dataframe_def flatten_dict_def)

theorem empty_mapping_fails_in_max_witness:
  "fst (json_to_excel (json_call ''in.json'' None) (one_json_file ''in.json'' (JDict [])))
     = Inl EmptySequence \<and>
   files (snd (snd (json_to_excel (json_call ''in.json'' None) (one_json_file ''in.json'' (JDict [])))))
     = files (one_json_file ''in.json'' (JDict [])) \<and>
   json_to_excel (dict_call (JDict []) ''out.xlsx'') no_files
     = (Inl EmptySequence, dict_call (JDict []) ''out.xlsx'', no_files)"
  using empty_mapping_fails_in_max [of "json_call ''in.json'' None" "one_json_file ''in.json'' (JDict [])"]
        empty_mapping_fails_in_max [of "dict_call (JDict []) ''out.xlsx''" no_files]
  by (simp add: json_call_def one_json_file_def dict_call_def truthy_def path_of_def)

section \<open>Missing arguments\<close>





section \<open>The derived destination\<close>




lemma convert_ignores_output_json:
  "fst (convert (c0 \<lparr> excel_file := Some p \<rparr>) w0) = fst (convert (c1 \<lparr> excel_file := Some p \<rparr>) w0) \<and>
   snd (snd (convert (c0 \<lparr> excel_file := Some p \<rparr>) w0)) = snd (snd (convert (c1 \<lparr> excel_file := Some p \<rparr>) w0))"
  if "data_dict c0 = data_dict c1"
  using that by (auto simp: convert_def split: sum.splits prod.splits)



section \<open>Rebuilding rows\<close>










section \<open>De-duplication on rebuild\<close>








section \<open>Writing the cells\<close>












section \<open>Headers and merging\<close>









section \<open>Reading and filling down\<close>










section \<open>Writing a table of text and reading it back\<close>







section \<open>The rows of a well-formed document\<close>
















section \<open>Rebuilding the rows of a document\<close>



section \<open>The round trip\<close>




end
